theory Spec2Isabelle
  imports Main
begin

section \<open>Errors\<close>

text \<open>
  Modelled from the spec: the \<^verbatim>\<open>ErrorCode\<close> enumeration lives in \<^verbatim>\<open>core/errors\<close>, which is
  not among the sources; its members are the six kinds of the spec's error taxonomy. The
  credential itself uses five of them, \<^verbatim>\<open>InvalidParameter\<close> belongs to the absent helper
  \<^verbatim>\<open>validateScopesType\<close>.
\<close>

datatype ErrorCode =
  InvalidParameter | InvalidConfiguration | InternalError
  | TokenExpiredError | UiRequiredError | ServiceError

text \<open>
  What a JavaScript \<^verbatim>\<open>throw\<close> can carry here: the SDK's \<^verbatim>\<open>ErrorWithCode(message, code)\<close>,
  a plain \<^verbatim>\<open>new Error(message)\<close>, or the \<^verbatim>\<open>TypeError\<close> the runtime raises when a property
  of \<^verbatim>\<open>null\<close> is read.
\<close>

datatype error = ErrorWithCode string ErrorCode | Error string | TypeError string

fun error_code :: "error \<Rightarrow> ErrorCode option" where
  "error_code (ErrorWithCode m c) = Some c"
| "error_code (Error m) = None"
| "error_code (TypeError m) = None"

fun error_message :: "error \<Rightarrow> string" where
  "error_message (ErrorWithCode m c) = m"
| "error_message (Error m) = m"
| "error_message (TypeError m) = m"

section \<open>JavaScript values and strings\<close>

text \<open>The values a decoded claim (typed \<^verbatim>\<open>any\<close>) can hold.\<close>

datatype json = JUndefined | JNull | JBool bool | JNumber int | JString string

text \<open>
  String concatenation with a value that may be \<^verbatim>\<open>undefined\<close>: \<^verbatim>\<open>"a" + undefined\<close> is
  \<^verbatim>\<open>"aundefined"\<close>.
\<close>

fun js_str :: "string option \<Rightarrow> string" where
  "js_str None = ''undefined''"
| "js_str (Some s) = s"

text \<open>\<^verbatim>\<open>!v\<close> for a value of type \<^verbatim>\<open>string | undefined\<close>: undefined and the empty string are falsy.\<close>

definition falsy :: "string option \<Rightarrow> bool" where
  "falsy v = (v = None \<or> v = Some [])"

text \<open>\<^verbatim>\<open>Array.prototype.join\<close> on an array of strings.\<close>

fun join :: "string \<Rightarrow> string list \<Rightarrow> string" where
  "join sep [] = []"
| "join sep [x] = x"
| "join sep (x # y # ys) = x @ sep @ join sep (y # ys)"

text \<open>
  \<^verbatim>\<open>String.prototype.split\<close> with a separator of one character (\<open>js_split\<close>), over its
  generalisation to a predicate on characters: the pieces between separators, empty pieces
  kept, so the result is never the empty list.
\<close>

fun split_where :: "(char \<Rightarrow> bool) \<Rightarrow> string \<Rightarrow> string list" where
  "split_where p [] = [[]]"
| "split_where p (c # cs) =
     (if p c then [] # split_where p cs
      else (case split_where p cs of
              [] \<Rightarrow> [[c]]
            | w # ws \<Rightarrow> (c # w) # ws))"

definition js_split :: "string \<Rightarrow> char \<Rightarrow> string list" where
  "js_split s sep = split_where (\<lambda>c. c = sep) s"

text \<open>\<^verbatim>\<open>String.prototype.indexOf\<close>: the first position where the needle starts, or \<open>-1\<close>.\<close>

fun startsWith :: "string \<Rightarrow> string \<Rightarrow> bool" where
  "startsWith s [] = True"
| "startsWith [] (n # ns) = False"
| "startsWith (c # cs) (n # ns) = (c = n \<and> startsWith cs ns)"

fun indexOf :: "string \<Rightarrow> string \<Rightarrow> int" where
  "indexOf [] n = (if n = [] then 0 else - 1)"
| "indexOf (c # cs) n =
     (if startsWith (c # cs) n then 0
      else (let r = indexOf cs n in if r < 0 then - 1 else r + 1))"

text \<open>A \<^verbatim>\<open>Date\<close> is its time value: milliseconds since the epoch, which \<^verbatim>\<open>getTime()\<close> returns.\<close>

datatype Date = Date int

fun getTime :: "Date \<Rightarrow> int" where
  "getTime (Date ms) = ms"

text \<open>\<^verbatim>\<open>new Date(s * 1000)\<close>: the instant \<open>s\<close> seconds after the epoch.\<close>

definition date_of_epoch_seconds :: "int \<Rightarrow> Date" where
  "date_of_epoch_seconds s = Date (s * 1000)"

section \<open>Token parser of the SQL plugin\<close>

datatype UserType = User | ServicePrincipal

record TokenInfo =
  name :: json
  objectId :: json
  userType :: UserType

text \<open>
  \<^verbatim>\<open>jwtDecode\<close> is the library \<^verbatim>\<open>jwt-decode\<close>, a parameter: it either throws or yields the
  parsed payload, typed \<^verbatim>\<open>any\<close>. The payload \<^verbatim>\<open>null\<close> is \<open>None\<close>: reading a property of it
  throws a \<^verbatim>\<open>TypeError\<close> (whose text is the engine's). Every other payload is given as the map
  of its properties, \<open>JUndefined\<close> where it has none of that name; a number, a string or an
  array has none of the names read here.
\<close>

type_synonym jwt = "string \<Rightarrow> json"

definition parseToken :: "(string \<Rightarrow> error + jwt option) \<Rightarrow> string \<Rightarrow> error + TokenInfo" where
  "parseToken jwtDecode accessToken =
     (case jwtDecode accessToken of
        Inl e \<Rightarrow> Inl e
      | Inr None \<Rightarrow> Inl (TypeError ''Cannot read properties of null (reading ver)'')
      | Inr (Some jwt) \<Rightarrow>
          (case (if jwt ''ver'' = JString ''1.0'' then Inr (jwt ''appidacr'')
                 else if jwt ''ver'' = JString ''2.0'' then Inr (jwt ''azpacr'')
                 else Inl (Error ''invalide token'')) of
             Inl e \<Rightarrow> Inl e
           | Inr authType \<Rightarrow>
               (if authType = JString ''0''
                then Inr \<lparr>name = jwt ''name'', objectId = jwt ''oid'', userType = User\<rparr>
                else Inr \<lparr>name = jwt ''appid'', objectId = jwt ''oid'',
                          userType = ServicePrincipal\<rparr>)))"

section \<open>On-behalf-of credential\<close>

subsection \<open>Data\<close>

record AccessToken =
  token :: string
  expiresOnTimestamp :: int

text \<open>
  The process-wide configuration object \<^verbatim>\<open>config\<close> of \<^verbatim>\<open>core/configurationProvider\<close>: it may
  be undefined, its \<^verbatim>\<open>authentication\<close> part may be undefined, and so may each value.
\<close>

record AuthenticationConfiguration =
  authorityHost :: "string option"
  tenantId :: "string option"
  clientId :: "string option"
  clientSecret :: "string option"
  simpleAuthEndpoint :: "string option"
  initiateLoginEndpoint :: "string option"

record Configuration =
  authentication :: "AuthenticationConfiguration option"

text \<open>\<^verbatim>\<open>config?.authentication?.f\<close>\<close>

definition auth_field ::
  "(AuthenticationConfiguration \<Rightarrow> string option) \<Rightarrow> Configuration option \<Rightarrow> string option" where
  "auth_field f cfg =
     (case cfg of
        None \<Rightarrow> None
      | Some c \<Rightarrow> (case authentication c of None \<Rightarrow> None | Some a \<Rightarrow> f a))"

text \<open>An element of a scopes array at run time, and the two shapes of the scopes argument.\<close>

datatype scope_item = Null | Str string

datatype scopes_arg = ScopesString string | ScopesArray "scope_item list"

text \<open>The identity provider client (\<^verbatim>\<open>ConfidentialClientApplication\<close> of msal-node).\<close>

record ConfidentialClientApplication =
  auth_clientId :: string
  auth_authority :: string
  auth_clientSecret :: string

record obo_request =
  oboAssertion :: string
  scopes :: "scope_item list"

record AuthenticationResult =
  accessToken :: string
  expiresOn :: "Date option"

text \<open>The error object the provider throws, as far as the credential reads it.\<close>

record provider_error =
  err_name :: "string option"
  errorMessage :: "string option"

datatype provider_outcome = Throws provider_error | Resolves "AuthenticationResult option"

text \<open>
  The state outside the credential: the global configuration, and the requests sent to the
  identity provider so far, each with the client that sent it.
\<close>

record world =
  config :: "Configuration option"
  calls :: "(ConfidentialClientApplication \<times> obo_request) list"

record OnBehalfOfUserCredential =
  msalClient :: ConfidentialClientApplication
  ssoToken :: AccessToken

text \<open>The claims \<^verbatim>\<open>parseJwt\<close> returns, as far as the credential reads them.\<close>

record decoded_jwt =
  exp :: int

text \<open>
  The parts of the SDK and of msal-node that the credential calls and that are not among
  the sources, taken as parameters: \<^verbatim>\<open>validateScopesType\<close> (\<open>Some e\<close> when it throws \<open>e\<close>),
  \<^verbatim>\<open>parseJwt\<close>, \<^verbatim>\<open>formatString\<close> with the two message templates of \<^verbatim>\<open>ErrorMessage\<close>, and the
  provider's \<^verbatim>\<open>acquireTokenOnBehalfOf\<close>, whose answer may depend on the client and on the
  requests made before.
\<close>

record externals =
  validateScopesType :: "scopes_arg \<Rightarrow> error option"
  parseJwt :: "string \<Rightarrow> error + decoded_jwt"
  formatString :: "string \<Rightarrow> string option list \<Rightarrow> string"
  ErrorMessage_InvalidConfiguration :: string
  ErrorMessage_FailToAcquireTokenOnBehalfOfUser :: string
  acquireTokenOnBehalfOf ::
    "ConfidentialClientApplication \<Rightarrow> (ConfidentialClientApplication \<times> obo_request) list
       \<Rightarrow> obo_request \<Rightarrow> provider_outcome"

subsection \<open>Constructor\<close>

definition missingConfigurations :: "Configuration option \<Rightarrow> string list" where
  "missingConfigurations cfg =
     (if falsy (auth_field clientId cfg) then [''clientId''] else []) @
     (if falsy (auth_field authorityHost cfg) then [''authorityHost''] else []) @
     (if falsy (auth_field clientSecret cfg) then [''clientSecret''] else []) @
     (if falsy (auth_field tenantId cfg) then [''tenantId''] else [])"

definition constructor ::
  "externals \<Rightarrow> world \<Rightarrow> string \<Rightarrow> error + OnBehalfOfUserCredential" where
  "constructor ext w sso =
     (if length (missingConfigurations (config w)) \<noteq> 0
      then Inl (ErrorWithCode
                  (formatString ext (ErrorMessage_InvalidConfiguration ext)
                     [Some (join '', '' (missingConfigurations (config w))), Some ''undefined''])
                  InvalidConfiguration)
      else
        (let authority =
               js_str (auth_field authorityHost (config w)) @ ''/'' @
               js_str (auth_field tenantId (config w));
             client = \<lparr>auth_clientId = js_str (auth_field clientId (config w)),
                       auth_authority = authority,
                       auth_clientSecret = js_str (auth_field clientSecret (config w))\<rparr>
         in (case parseJwt ext sso of
               Inl e \<Rightarrow> Inl e
             | Inr decodedSsoToken \<Rightarrow>
                 Inr \<lparr>msalClient = client,
                      ssoToken = \<lparr>token = sso, expiresOnTimestamp = exp decodedSsoToken\<rparr>\<rparr>)))"

subsection \<open>getToken\<close>

definition generateAuthServerError :: "externals \<Rightarrow> provider_error \<Rightarrow> error" where
  "generateAuthServerError ext err =
     (if err_name err = Some ''InteractionRequiredAuthError''
      then ErrorWithCode
             (''Failed to get access token from AAD server, interaction required: '' @
                js_str (errorMessage err))
             UiRequiredError
      else if \<not> falsy (errorMessage err) \<and> indexOf (js_str (errorMessage err)) ''AADSTS500133'' \<ge> 0
      then ErrorWithCode
             (''Failed to get access token from AAD server, sso token expired: '' @
                js_str (errorMessage err))
             TokenExpiredError
      else ErrorWithCode
             (formatString ext (ErrorMessage_FailToAcquireTokenOnBehalfOfUser ext)
                [errorMessage err])
             ServiceError)"

text \<open>The scopes argument as an array: a string is split at spaces; then null and empty entries go.\<close>

definition scopesArray :: "scopes_arg \<Rightarrow> scope_item list" where
  "scopesArray sc =
     filter (\<lambda>x. x \<noteq> Null \<and> x \<noteq> Str '''')
       (case sc of ScopesString s \<Rightarrow> map Str (js_split s (CHR '' '')) | ScopesArray xs \<Rightarrow> xs)"

text \<open>What \<^verbatim>\<open>getToken\<close> makes of the provider's answer: the catch clause, the null test, the new token.\<close>

definition exchange_result :: "externals \<Rightarrow> provider_outcome \<Rightarrow> error + AccessToken" where
  "exchange_result ext out =
     (case out of
        Throws err \<Rightarrow> Inl (generateAuthServerError ext err)
      | Resolves None \<Rightarrow>
          Inl (ErrorWithCode
                 (formatString ext (ErrorMessage_FailToAcquireTokenOnBehalfOfUser ext)
                    [Some ''Access token is null''])
                 InternalError)
      | Resolves (Some authenticationResult) \<Rightarrow>
          (case expiresOn authenticationResult of
             None \<Rightarrow> Inl (TypeError ''Cannot read properties of null (reading getTime)'')
           | Some d \<Rightarrow>
               Inr \<lparr>token = accessToken authenticationResult,
                    expiresOnTimestamp = getTime d\<rparr>))"

text \<open>
  \<^verbatim>\<open>getToken(scopes)\<close> at the time \<open>now\<close> (what \<^verbatim>\<open>Date.now()\<close> returns, in milliseconds): the
  result, the credential afterwards and the world afterwards. Logging is left out.
\<close>

definition getToken ::
  "externals \<Rightarrow> OnBehalfOfUserCredential \<Rightarrow> scopes_arg \<Rightarrow> int \<Rightarrow> world
     \<Rightarrow> (error + AccessToken) \<times> OnBehalfOfUserCredential \<times> world" where
  "getToken ext this sc now w =
     (case validateScopesType ext sc of
        Some e \<Rightarrow> (Inl e, this, w)
      | None \<Rightarrow>
          (if length (scopesArray sc) = 0
           then (if now div 1000 > expiresOnTimestamp (ssoToken this)
                 then (Inl (ErrorWithCode ''Sso token has already expired.'' TokenExpiredError),
                       this, w)
                 else (Inr (ssoToken this), this, w))
           else
             (let request = \<lparr>oboAssertion = token (ssoToken this), scopes = scopesArray sc\<rparr>
              in (exchange_result ext
                    (acquireTokenOnBehalfOf ext (msalClient this) (calls w) request),
                  this,
                  w\<lparr>calls := calls w @ [(msalClient this, request)]\<rparr>))))"

text \<open>Two calls in a row: the two results and the world after both.\<close>

definition getToken_twice ::
  "externals \<Rightarrow> OnBehalfOfUserCredential \<Rightarrow> scopes_arg \<Rightarrow> int \<Rightarrow> int \<Rightarrow> world
     \<Rightarrow> (error + AccessToken) \<times> (error + AccessToken) \<times> world" where
  "getToken_twice ext this sc now1 now2 w =
     (case getToken ext this sc now1 w of
        (r1, this1, w1) \<Rightarrow>
          (case getToken ext this1 sc now2 w1 of
             (r2, this2, w2) \<Rightarrow> (r1, r2, w2)))"

section \<open>The specification's readings\<close>

text \<open>
  The specification speaks of scopes split on whitespace; this is that reading, to be
  compared with \<open>scopesArray\<close>, which splits at the space character only.
\<close>

definition is_whitespace :: "char \<Rightarrow> bool" where
  "is_whitespace c = (c \<in> {CHR '' '', CHR 0x09, CHR 0x0A, CHR 0x0B, CHR 0x0C, CHR 0x0D})"

definition spec_scopes_by_whitespace :: "scopes_arg \<Rightarrow> scope_item list" where
  "spec_scopes_by_whitespace sc =
     filter (\<lambda>x. x \<noteq> Null \<and> x \<noteq> Str '''')
       (case sc of ScopesString s \<Rightarrow> map Str (split_where is_whitespace s) | ScopesArray xs \<Rightarrow> xs)"

text \<open>The specification's unit for every expiry: whole seconds since the epoch.\<close>

definition spec_epoch_seconds :: "Date \<Rightarrow> int" where
  "spec_epoch_seconds d = getTime d div 1000"

text \<open>The four required values by name, in the order the constructor tests them.\<close>

definition required_fields :: "(string \<times> (AuthenticationConfiguration \<Rightarrow> string option)) list" where
  "required_fields =
     [(''clientId'', clientId), (''authorityHost'', authorityHost),
      (''clientSecret'', clientSecret), (''tenantId'', tenantId)]"

section \<open>Test doubles\<close>

text \<open>
  Stand-ins for the absent helpers and for the identity provider, used where a theorem is
  applied to a concrete run.
\<close>

fun stub_formatString :: "string \<Rightarrow> string option list \<Rightarrow> string" where
  "stub_formatString [] args = []"
| "stub_formatString (c # cs) args =
     (if startsWith (c # cs) ''{0}''
      then js_str (case args of a # _ \<Rightarrow> a | _ \<Rightarrow> None) @ stub_formatString (drop 2 cs) args
      else if startsWith (c # cs) ''{1}''
      then js_str (case args of _ # b # _ \<Rightarrow> b | _ \<Rightarrow> None) @ stub_formatString (drop 2 cs) args
      else c # stub_formatString cs args)"

definition stub_validateScopesType :: "scopes_arg \<Rightarrow> error option" where
  "stub_validateScopesType sc =
     (case sc of
        ScopesString s \<Rightarrow> None
      | ScopesArray xs \<Rightarrow>
          (if Null \<in> set xs
           then Some (ErrorWithCode
                        ''The type of scopes is not valid, it must be string or string array''
                        InvalidParameter)
           else None))"

definition stub_parseJwt :: "string \<Rightarrow> error + decoded_jwt" where
  "stub_parseJwt t =
     (if t = ''T1'' then Inr \<lparr>exp = 1700000000\<rparr>
      else Inl (ErrorWithCode ''Parse jwt token failed in node env'' InternalError))"

definition provider_A1 ::
  "ConfidentialClientApplication \<Rightarrow> (ConfidentialClientApplication \<times> obo_request) list
     \<Rightarrow> obo_request \<Rightarrow> provider_outcome" where
  "provider_A1 client log request =
     Resolves (Some \<lparr>accessToken = ''A1'', expiresOn = Some (Date 1700003600000)\<rparr>)"

definition provider_interaction_required ::
  "ConfidentialClientApplication \<Rightarrow> (ConfidentialClientApplication \<times> obo_request) list
     \<Rightarrow> obo_request \<Rightarrow> provider_outcome" where
  "provider_interaction_required client log request =
     Throws \<lparr>err_name = Some ''InteractionRequiredAuthError'',
             errorMessage = Some ''AADSTS500133 and AADSTS65001: consent required''\<rparr>"

definition provider_assertion_expired ::
  "ConfidentialClientApplication \<Rightarrow> (ConfidentialClientApplication \<times> obo_request) list
     \<Rightarrow> obo_request \<Rightarrow> provider_outcome" where
  "provider_assertion_expired client log request =
     Throws \<lparr>err_name = Some ''ServerError'',
             errorMessage = Some ''invalid_grant: AADSTS500133: Assertion expired.''\<rparr>"

definition provider_unavailable ::
  "ConfidentialClientApplication \<Rightarrow> (ConfidentialClientApplication \<times> obo_request) list
     \<Rightarrow> obo_request \<Rightarrow> provider_outcome" where
  "provider_unavailable client log request =
     Throws \<lparr>err_name = Some ''ClientAuthError'', errorMessage = Some ''network down''\<rparr>"

definition provider_null ::
  "ConfidentialClientApplication \<Rightarrow> (ConfidentialClientApplication \<times> obo_request) list
     \<Rightarrow> obo_request \<Rightarrow> provider_outcome" where
  "provider_null client log request = Resolves None"

definition stub_externals ::
  "(ConfidentialClientApplication \<Rightarrow> (ConfidentialClientApplication \<times> obo_request) list
      \<Rightarrow> obo_request \<Rightarrow> provider_outcome) \<Rightarrow> externals" where
  "stub_externals provider =
     \<lparr>validateScopesType = stub_validateScopesType,
      parseJwt = stub_parseJwt,
      formatString = stub_formatString,
      ErrorMessage_InvalidConfiguration = ''{0} in configuration is invalid: {1}.'',
      ErrorMessage_FailToAcquireTokenOnBehalfOfUser =
        ''Failed to acquire access token on behalf of user: {0}'',
      acquireTokenOnBehalfOf = provider\<rparr>"

definition full_configuration :: Configuration where
  "full_configuration =
     \<lparr>authentication =
        Some \<lparr>authorityHost = Some ''https://login.microsoftonline.com'',
              tenantId = Some ''fake_tenant_id'',
              clientId = Some ''fake_client_id'',
              clientSecret = Some ''fake_client_secret'',
              simpleAuthEndpoint = None,
              initiateLoginEndpoint = None\<rparr>\<rparr>"

definition login_only_configuration :: Configuration where
  "login_only_configuration =
     \<lparr>authentication =
        Some \<lparr>authorityHost = None, tenantId = None, clientId = None, clientSecret = None,
              simpleAuthEndpoint = None, initiateLoginEndpoint = Some ''fake_login_url''\<rparr>\<rparr>"

definition empty_client_id_configuration :: Configuration where
  "empty_client_id_configuration =
     \<lparr>authentication =
        Some \<lparr>authorityHost = Some ''https://login.microsoftonline.com'',
              tenantId = Some ''fake_tenant_id'',
              clientId = Some '''',
              clientSecret = Some ''fake_client_secret'',
              simpleAuthEndpoint = None,
              initiateLoginEndpoint = None\<rparr>\<rparr>"

definition world_full :: world where
  "world_full = \<lparr>config = Some full_configuration, calls = []\<rparr>"

definition world_login_only :: world where
  "world_login_only = \<lparr>config = Some login_only_configuration, calls = []\<rparr>"

definition world_empty_client_id :: world where
  "world_empty_client_id = \<lparr>config = Some empty_client_id_configuration, calls = []\<rparr>"

definition no_secret_no_tenant_configuration :: Configuration where
  "no_secret_no_tenant_configuration =
     \<lparr>authentication =
        Some \<lparr>authorityHost = Some ''https://login.microsoftonline.com'',
              tenantId = None,
              clientId = Some ''fake_client_id'',
              clientSecret = None,
              simpleAuthEndpoint = None,
              initiateLoginEndpoint = None\<rparr>\<rparr>"

definition world_no_secret_no_tenant :: world where
  "world_no_secret_no_tenant =
     \<lparr>config = Some no_secret_no_tenant_configuration, calls = []\<rparr>"

definition stub_client :: ConfidentialClientApplication where
  "stub_client =
     \<lparr>auth_clientId = ''fake_client_id'',
      auth_authority = ''https://login.microsoftonline.com/fake_tenant_id'',
      auth_clientSecret = ''fake_client_secret''\<rparr>"

definition stub_credential :: OnBehalfOfUserCredential where
  "stub_credential =
     \<lparr>msalClient = stub_client, ssoToken = \<lparr>token = ''T1'', expiresOnTimestamp = 1700000000\<rparr>\<rparr>"

definition user_read_request :: obo_request where
  "user_read_request = \<lparr>oboAssertion = ''T1'', scopes = [Str ''User.Read'']\<rparr>"

definition jwt_of :: "(string \<times> json) list \<Rightarrow> jwt" where
  "jwt_of kvs k = (case map_of kvs k of None \<Rightarrow> JUndefined | Some v \<Rightarrow> v)"

definition jwt_user_v1 :: jwt where
  "jwt_user_v1 =
     jwt_of [(''ver'', JString ''1.0''), (''appidacr'', JString ''0''),
             (''name'', JString ''fake-name''), (''oid'', JString ''fake-oid'')]"

definition jwt_app_v2 :: jwt where
  "jwt_app_v2 =
     jwt_of [(''ver'', JString ''2.0''), (''azpacr'', JString ''1''),
             (''appid'', JString ''fake-appid''), (''oid'', JString ''fake-oid'')]"

definition jwt_other_version :: jwt where
  "jwt_other_version =
     jwt_of [(''ver'', JString ''3.0''), (''azpacr'', JString ''0''),
             (''name'', JString ''fake-name''), (''oid'', JString ''fake-oid'')]"

definition stub_jwtDecode :: "string \<Rightarrow> error + jwt option" where
  "stub_jwtDecode t =
     (if t = ''user-v1'' then Inr (Some jwt_user_v1)
      else if t = ''app-v2'' then Inr (Some jwt_app_v2)
      else if t = ''other-version'' then Inr (Some jwt_other_version)
      else if t = ''null-payload'' then Inr None
      else Inl (Error ''Invalid token specified''))"

section \<open>Facts about the helpers\<close>

text \<open>
  Splitting never yields the empty array, so a scopes string normalises to no scope exactly
  when it consists of space characters only; \<open>indexOf\<close> is non-negative exactly when the
  needle occurs in the string.
\<close>

lemma split_where_nonempty: "split_where p s \<noteq> []"
  by (induction s) (auto split: list.splits)

lemma filter_nonempty_split_where:
  "filter (\<lambda>x. x \<noteq> []) (split_where p s) = [] \<longleftrightarrow> (\<forall>c \<in> set s. p c)"
proof (induction s)
  case Nil
  then show ?case by simp
next
  case (Cons c cs)
  then show ?case
    by (cases "split_where p cs") (auto simp: split_where_nonempty)
qed

lemma scopesArray_string_empty_iff:
  "scopesArray (ScopesString s) = [] \<longleftrightarrow> set s \<subseteq> {CHR '' ''}"
proof -
  have "filter (\<lambda>x. x \<noteq> Null \<and> x \<noteq> Str '''') (map Str ws) = map Str (filter (\<lambda>x. x \<noteq> []) ws)" for ws
    by (induction ws) auto
  then show ?thesis
    using filter_nonempty_split_where[of "\<lambda>c. c = CHR '' ''" s]
    by (auto simp: scopesArray_def js_split_def)
qed

lemma scopesArray_array_empty_iff:
  "scopesArray (ScopesArray xs) = [] \<longleftrightarrow> set xs \<subseteq> {Null, Str ''''}"
  by (auto simp: scopesArray_def filter_empty_conv)

lemma startsWith_iff: "startsWith s n \<longleftrightarrow> (\<exists>b. s = n @ b)"
  by (induction s n rule: startsWith.induct) auto

lemma indexOf_nonneg_iff: "indexOf s n \<ge> 0 \<longleftrightarrow> (\<exists>a b. s = a @ n @ b)"
proof (induction s)
  case Nil
  then show ?case by auto
next
  case (Cons c cs)
  show ?case
  proof (cases "startsWith (c # cs) n")
    case True
    then obtain b where "c # cs = n @ b" by (auto simp: startsWith_iff)
    then have "c # cs = [] @ n @ b" by simp
    with True show ?thesis by (metis indexOf.simps(2) order_refl)
  next
    case False
    have "(\<exists>a b. c # cs = a @ n @ b) \<longleftrightarrow> (\<exists>a b. cs = a @ n @ b)"
    proof
      assume "\<exists>a b. c # cs = a @ n @ b"
      then obtain a b where ab: "c # cs = a @ n @ b" by blast
      show "\<exists>a b. cs = a @ n @ b"
      proof (cases a)
        case Nil
        with ab False show ?thesis by (auto simp: startsWith_iff)
      next
        case (Cons x a')
        with ab show ?thesis by auto
      qed
    next
      assume "\<exists>a b. cs = a @ n @ b"
      then obtain a b where "cs = a @ n @ b" by blast
      then have "c # cs = (c # a) @ n @ b" by simp
      then show "\<exists>a b. c # cs = a @ n @ b" by blast
    qed
    with False Cons show ?thesis by (auto simp: Let_def)
  qed
qed

lemma contains_signature_iff:
  "(\<not> falsy m \<and> indexOf (js_str m) ''AADSTS500133'' \<ge> 0) \<longleftrightarrow>
   (\<exists>a b. m = Some (a @ ''AADSTS500133'' @ b))"
proof (cases m)
  case None
  then show ?thesis by (simp add: falsy_def)
next
  case (Some s)
  have "s = [] \<Longrightarrow> \<not> (\<exists>a b. s = a @ ''AADSTS500133'' @ b)" by simp
  with Some show ?thesis
    using indexOf_nonneg_iff[of s "''AADSTS500133''"] by (auto simp: falsy_def)
qed

lemma generateAuthServerError_cases:
  "generateAuthServerError ext err =
     (if err_name err = Some ''InteractionRequiredAuthError''
      then ErrorWithCode
             (''Failed to get access token from AAD server, interaction required: '' @
                js_str (errorMessage err))
             UiRequiredError
      else if (\<exists>a b. errorMessage err = Some (a @ ''AADSTS500133'' @ b))
      then ErrorWithCode
             (''Failed to get access token from AAD server, sso token expired: '' @
                js_str (errorMessage err))
             TokenExpiredError
      else ErrorWithCode
             (formatString ext (ErrorMessage_FailToAcquireTokenOnBehalfOfUser ext)
                [errorMessage err])
             ServiceError)"
  unfolding generateAuthServerError_def contains_signature_iff ..

lemma exchange_result_TokenExpired_iff:
  "(\<exists>m. exchange_result ext out = Inl (ErrorWithCode m TokenExpiredError)) \<longleftrightarrow>
   (\<exists>err. out = Throws err \<and> err_name err \<noteq> Some ''InteractionRequiredAuthError'' \<and>
          (\<exists>a b. errorMessage err = Some (a @ ''AADSTS500133'' @ b)))"
proof (cases out)
  case (Throws err)
  then show ?thesis
    by (simp add: exchange_result_def generateAuthServerError_cases)
next
  case (Resolves r)
  then show ?thesis
    by (cases r) (auto simp: exchange_result_def split: option.splits)
qed

lemma missingConfigurations_names:
  "n \<in> set (missingConfigurations cfg) \<longleftrightarrow>
   (\<exists>f. (n, f) \<in> set required_fields \<and> falsy (auth_field f cfg))"
  by (auto simp: missingConfigurations_def required_fields_def)

lemma missingConfigurations_distinct: "distinct (missingConfigurations cfg)"
  by (simp add: missingConfigurations_def)

lemma missingConfigurations_ordered:
  "missingConfigurations cfg =
     map fst (filter (\<lambda>(n, f). falsy (auth_field f cfg)) required_fields)"
  by (simp add: missingConfigurations_def required_fields_def)

lemma split_where_no_separator: "\<forall>c \<in> set s. \<not> p c \<Longrightarrow> split_where p s = [s]"
  by (induction s) auto

lemma scopesArray_no_space:
  assumes "s \<noteq> []" and "CHR '' '' \<notin> set s"
  shows "scopesArray (ScopesString s) = [Str s]"
proof -
  have "\<forall>c \<in> set s. \<not> c = CHR '' ''"
    using assms(2) by auto
  then have "split_where (\<lambda>c. c = CHR '' '') s = [s]"
    by (rule split_where_no_separator)
  with assms(1) show ?thesis
    by (simp add: scopesArray_def js_split_def)
qed

section \<open>The three paths of getToken\<close>

lemma getToken_rejected_scopes:
  "validateScopesType ext sc = Some e \<Longrightarrow> getToken ext this sc now w = (Inl e, this, w)"
  by (simp add: getToken_def)

lemma getToken_no_scopes:
  "validateScopesType ext sc = None \<Longrightarrow> scopesArray sc = [] \<Longrightarrow>
   getToken ext this sc now w =
     (if now div 1000 > expiresOnTimestamp (ssoToken this)
      then (Inl (ErrorWithCode ''Sso token has already expired.'' TokenExpiredError), this, w)
      else (Inr (ssoToken this), this, w))"
  by (simp add: getToken_def)

lemma getToken_with_scopes:
  "validateScopesType ext sc = None \<Longrightarrow> scopesArray sc \<noteq> [] \<Longrightarrow>
   getToken ext this sc now w =
     (exchange_result ext
        (acquireTokenOnBehalfOf ext (msalClient this) (calls w)
           \<lparr>oboAssertion = token (ssoToken this), scopes = scopesArray sc\<rparr>),
      this,
      w\<lparr>calls := calls w @
          [(msalClient this, \<lparr>oboAssertion = token (ssoToken this), scopes = scopesArray sc\<rparr>)]\<rparr>)"
  by (simp add: getToken_def Let_def)

lemma getToken_keeps_credential: "fst (snd (getToken ext this sc now w)) = this"
  by (simp add: getToken_def Let_def split: option.splits)

lemma getToken_keeps_config: "config (snd (snd (getToken ext this sc now w))) = config w"
  by (simp add: getToken_def Let_def split: option.splits)

lemma getToken_ignores_config:
  "getToken ext this sc now (w\<lparr>config := cfg'\<rparr>) =
     (case getToken ext this sc now w of (r, t, w') \<Rightarrow> (r, t, w'\<lparr>config := cfg'\<rparr>))"
  by (simp add: getToken_def Let_def split: option.splits)

section \<open>The test doubles, evaluated\<close>

lemma stub_externals_simps:
  "validateScopesType (stub_externals p) = stub_validateScopesType"
  "parseJwt (stub_externals p) = stub_parseJwt"
  "formatString (stub_externals p) = stub_formatString"
  "ErrorMessage_InvalidConfiguration (stub_externals p) = ''{0} in configuration is invalid: {1}.''"
  "ErrorMessage_FailToAcquireTokenOnBehalfOfUser (stub_externals p) =
     ''Failed to acquire access token on behalf of user: {0}''"
  "acquireTokenOnBehalfOf (stub_externals p) = p"
  by (simp_all add: stub_externals_def)

lemma stub_scopes_simps:
  "stub_validateScopesType (ScopesString s) = None"
  "stub_validateScopesType (ScopesArray []) = None"
  "stub_validateScopesType (ScopesArray [Str x]) = None"
  "scopesArray (ScopesString '''') = []"
  "scopesArray (ScopesArray []) = []"
  "scopesArray (ScopesString ''User.Read'') = [Str ''User.Read'']"
  "scopesArray (ScopesArray [Str ''User.Read'']) = [Str ''User.Read'']"
  by (simp_all add: stub_validateScopesType_def scopesArray_def js_split_def)

lemma stub_credential_simps:
  "msalClient stub_credential = stub_client"
  "ssoToken stub_credential = \<lparr>token = ''T1'', expiresOnTimestamp = 1700000000\<rparr>"
  by (simp_all add: stub_credential_def)

section \<open>Token parser\<close>

lemma parseToken_supported:
  assumes "jwtDecode t = Inr (Some jwt)"
    and "jwt ''ver'' = JString ''1.0'' \<or> jwt ''ver'' = JString ''2.0''"
  shows "parseToken jwtDecode t =
     (if (if jwt ''ver'' = JString ''1.0'' then jwt ''appidacr'' else jwt ''azpacr'') = JString ''0''
      then Inr \<lparr>name = jwt ''name'', objectId = jwt ''oid'', userType = User\<rparr>
      else Inr \<lparr>name = jwt ''appid'', objectId = jwt ''oid'', userType = ServicePrincipal\<rparr>)"
  using assms by (auto simp: parseToken_def)

text \<open>
  C8. A decodable token of version 1.0 or 2.0 is parsed, and the result is tagged \<open>User\<close>
  exactly when its authentication-context class claim (\<^verbatim>\<open>appidacr\<close> for 1.0, \<^verbatim>\<open>azpacr\<close> for
  2.0) is the string \<^verbatim>\<open>"0"\<close>, and \<open>ServicePrincipal\<close> for every other value of that claim.
\<close>

theorem parseToken_userType:
  assumes "jwtDecode t = Inr (Some jwt)"
    and "jwt ''ver'' = JString ''1.0'' \<or> jwt ''ver'' = JString ''2.0''"
  shows "\<exists>info. parseToken jwtDecode t = Inr info \<and>
     (userType info = User \<longleftrightarrow>
        (if jwt ''ver'' = JString ''1.0'' then jwt ''appidacr'' else jwt ''azpacr'') = JString ''0'') \<and>
     (userType info = ServicePrincipal \<longleftrightarrow>
        (if jwt ''ver'' = JString ''1.0'' then jwt ''appidacr'' else jwt ''azpacr'') \<noteq> JString ''0'')"
proof (cases "(if jwt ''ver'' = JString ''1.0'' then jwt ''appidacr'' else jwt ''azpacr'') = JString ''0''")
  case True
  with parseToken_supported[where jwtDecode = jwtDecode and jwt = jwt, OF assms] show ?thesis by simp
next
  case False
  with parseToken_supported[where jwtDecode = jwtDecode and jwt = jwt, OF assms] show ?thesis by simp
qed

text \<open>
  C8 at two tokens: a version 1.0 token of class \<^verbatim>\<open>"0"\<close> is a user, a version 2.0 token of
  class \<^verbatim>\<open>"1"\<close> is a service principal.
\<close>

theorem parseToken_userType_witness:
  "(case parseToken stub_jwtDecode ''user-v1'' of Inl e \<Rightarrow> None | Inr info \<Rightarrow> Some (userType info))
     = Some User \<and>
   (case parseToken stub_jwtDecode ''app-v2'' of Inl e \<Rightarrow> None | Inr info \<Rightarrow> Some (userType info))
     = Some ServicePrincipal"
proof -
  have d1: "stub_jwtDecode ''user-v1'' = Inr (Some jwt_user_v1)"
    by (simp add: stub_jwtDecode_def)
  have d2: "stub_jwtDecode ''app-v2'' = Inr (Some jwt_app_v2)"
    by (simp add: stub_jwtDecode_def)
  have v1: "jwt_user_v1 ''ver'' = JString ''1.0'' \<or> jwt_user_v1 ''ver'' = JString ''2.0''"
    by (simp add: jwt_user_v1_def jwt_of_def)
  have v2: "jwt_app_v2 ''ver'' = JString ''1.0'' \<or> jwt_app_v2 ''ver'' = JString ''2.0''"
    by (simp add: jwt_app_v2_def jwt_of_def)
  show ?thesis
    using parseToken_userType[where jwtDecode = stub_jwtDecode and jwt = jwt_user_v1, OF d1 v1]
      parseToken_userType[where jwtDecode = stub_jwtDecode and jwt = jwt_app_v2, OF d2 v2]
    by (auto simp: jwt_user_v1_def jwt_app_v2_def jwt_of_def)
qed

text \<open>
  C7 as stated fails: for a token of version 3.0 the parser throws a plain
  \<^verbatim>\<open>Error("invalide token")\<close>, which carries no code.
\<close>

theorem parseToken_unsupported_version_counterexample:
  "parseToken stub_jwtDecode ''other-version'' = Inl (Error ''invalide token'') \<and>
   error_code (Error ''invalide token'') = None"
  by (simp add: parseToken_def stub_jwtDecode_def jwt_other_version_def jwt_of_def)

text \<open>
  C7, amended. For every token that decodes to a payload other than \<^verbatim>\<open>null\<close> whose \<^verbatim>\<open>ver\<close>
  claim is neither \<^verbatim>\<open>"1.0"\<close> nor \<^verbatim>\<open>"2.0"\<close> (a payload without \<^verbatim>\<open>ver\<close> included),
  \<open>parseToken\<close> fails, and what it throws is the plain error with the message
  \<^verbatim>\<open>invalide token\<close>. For a token that decodes to \<^verbatim>\<open>null\<close>, \<open>parseToken\<close> fails with the
  \<^verbatim>\<open>TypeError\<close> of reading \<^verbatim>\<open>ver\<close>. In both cases the error thrown carries no code.
\<close>

theorem parseToken_unsupported_version:
  "(jwtDecode t = Inr (Some jwt) \<longrightarrow>
      jwt ''ver'' \<noteq> JString ''1.0'' \<longrightarrow> jwt ''ver'' \<noteq> JString ''2.0'' \<longrightarrow>
        parseToken jwtDecode t = Inl (Error ''invalide token'')) \<and>
   (jwtDecode t = Inr None \<longrightarrow> (\<exists>m. parseToken jwtDecode t = Inl (TypeError m))) \<and>
   ((jwtDecode t = Inr None \<or>
     (\<exists>j. jwtDecode t = Inr (Some j) \<and> j ''ver'' \<noteq> JString ''1.0'' \<and> j ''ver'' \<noteq> JString ''2.0'')) \<longrightarrow>
      (\<exists>e. parseToken jwtDecode t = Inl e \<and> error_code e = None))"
  by (auto simp: parseToken_def)

text \<open>C7, amended, at the token of version 3.0 and at the token whose payload is \<^verbatim>\<open>null\<close>.\<close>

theorem parseToken_unsupported_version_witness:
  "stub_jwtDecode ''other-version'' = Inr (Some jwt_other_version) \<and>
   jwt_other_version ''ver'' = JString ''3.0'' \<and>
   parseToken stub_jwtDecode ''other-version'' = Inl (Error ''invalide token'') \<and>
   stub_jwtDecode ''null-payload'' = Inr None \<and>
   (case parseToken stub_jwtDecode ''null-payload'' of
      Inl e \<Rightarrow> (case e of TypeError m \<Rightarrow> True | _ \<Rightarrow> False)
    | Inr info \<Rightarrow> False)"
proof -
  have d: "stub_jwtDecode ''other-version'' = Inr (Some jwt_other_version)"
    by (simp add: stub_jwtDecode_def)
  have v: "jwt_other_version ''ver'' = JString ''3.0''"
    by (simp add: jwt_other_version_def jwt_of_def)
  have n1: "jwt_other_version ''ver'' \<noteq> JString ''1.0''" and n2: "jwt_other_version ''ver'' \<noteq> JString ''2.0''"
    by (simp_all add: v)
  have z: "stub_jwtDecode ''null-payload'' = Inr None"
    by (simp add: stub_jwtDecode_def)
  show ?thesis
    using d v n1 n2 z
      parseToken_unsupported_version[where jwtDecode = stub_jwtDecode
        and t = "''other-version''" and jwt = jwt_other_version]
      parseToken_unsupported_version[where jwtDecode = stub_jwtDecode
        and t = "''null-payload''" and jwt = jwt_other_version]
    by auto
qed

section \<open>Constructor\<close>

text \<open>
  C9. With the four configuration values present, an SSO token that \<^verbatim>\<open>parseJwt\<close> cannot
  decode makes the constructor throw what \<^verbatim>\<open>parseJwt\<close> threw; whatever the configuration, such
  a token makes the constructor throw; and every credential the constructor returns holds
  the SSO token string it was given, decodable, with the expiry of its \<^verbatim>\<open>exp\<close> claim.
\<close>

theorem constructor_decodes_sso_token:
  "(missingConfigurations (config w) = [] \<longrightarrow> parseJwt ext sso = Inl e \<longrightarrow>
      constructor ext w sso = Inl e) \<and>
   (parseJwt ext sso = Inl e \<longrightarrow> (\<exists>e'. constructor ext w sso = Inl e')) \<and>
   (constructor ext w sso = Inr c \<longrightarrow>
      (\<exists>d. parseJwt ext sso = Inr d \<and> token (ssoToken c) = sso \<and>
           expiresOnTimestamp (ssoToken c) = exp d))"
  by (auto simp: constructor_def Let_def split: sum.splits if_splits)

text \<open>
  C9 with the complete configuration: an undecodable string is refused with the parser's
  error, and the token \<^verbatim>\<open>T1\<close> gives the credential holding \<^verbatim>\<open>T1\<close> and its \<^verbatim>\<open>exp\<close>.
\<close>

theorem constructor_decodes_sso_token_witness:
  "constructor (stub_externals provider_A1) world_full ''not-a-jwt'' =
     Inl (ErrorWithCode ''Parse jwt token failed in node env'' InternalError) \<and>
   constructor (stub_externals provider_A1) world_full ''T1'' = Inr stub_credential \<and>
   stub_parseJwt ''T1'' = Inr \<lparr>exp = expiresOnTimestamp (ssoToken stub_credential)\<rparr>"
proof -
  have m: "missingConfigurations (config world_full) = []"
    unfolding missingConfigurations_def world_full_def full_configuration_def auth_field_def
      falsy_def
    by simp
  have p: "parseJwt (stub_externals provider_A1) ''not-a-jwt'' =
      Inl (ErrorWithCode ''Parse jwt token failed in node env'' InternalError)"
    by (simp add: stub_externals_def stub_parseJwt_def)
  have c: "constructor (stub_externals provider_A1) world_full ''T1'' = Inr stub_credential"
    by (simp add: constructor_def missingConfigurations_def falsy_def stub_externals_def
        stub_parseJwt_def world_full_def full_configuration_def auth_field_def
        stub_credential_def stub_client_def)
  show ?thesis
    using constructor_decodes_sso_token[of world_full "stub_externals provider_A1" "''not-a-jwt''"
        "ErrorWithCode ''Parse jwt token failed in node env'' InternalError" stub_credential]
      constructor_decodes_sso_token[of world_full "stub_externals provider_A1" "''T1''"
        "ErrorWithCode ''Parse jwt token failed in node env'' InternalError" stub_credential]
      m p c
    by (auto simp: stub_externals_def stub_parseJwt_def stub_credential_def)
qed

text \<open>
  C3 as stated fails where a value is present and empty: with \<^verbatim>\<open>clientId: ""\<close> and the other
  three values set, all four are present, and the constructor still throws
  \<^verbatim>\<open>InvalidConfiguration\<close>, naming \<^verbatim>\<open>clientId\<close>. The test is \<^verbatim>\<open>!value\<close>, which the empty string
  fails as \<^verbatim>\<open>undefined\<close> does.
\<close>

theorem constructor_empty_value_counterexample:
  "auth_field clientId (config world_empty_client_id) = Some '''' \<and>
   auth_field authorityHost (config world_empty_client_id) = Some ''https://login.microsoftonline.com'' \<and>
   auth_field clientSecret (config world_empty_client_id) = Some ''fake_client_secret'' \<and>
   auth_field tenantId (config world_empty_client_id) = Some ''fake_tenant_id'' \<and>
   constructor (stub_externals provider_A1) world_empty_client_id ''T1'' =
     Inl (ErrorWithCode ''clientId in configuration is invalid: undefined.'' InvalidConfiguration)"
  by (simp add: constructor_def missingConfigurations_def falsy_def auth_field_def
      world_empty_client_id_def empty_client_id_configuration_def stub_externals_simps)

text \<open>
  C3, amended. Call a value missing when it is undefined or the empty string. The names the
  constructor collects are the names of exactly the missing values among the four required
  ones, each once, in the order \<^verbatim>\<open>clientId\<close>, \<^verbatim>\<open>authorityHost\<close>, \<^verbatim>\<open>clientSecret\<close>, \<^verbatim>\<open>tenantId\<close>.
  If any is missing, the constructor throws \<^verbatim>\<open>InvalidConfiguration\<close> with the message template
  applied to these names, joined in that order by \<^verbatim>\<open>", "\<close>, and to \<^verbatim>\<open>"undefined"\<close>. If none is
  missing, the only error the constructor can throw is the one \<^verbatim>\<open>parseJwt\<close> throws. And
  \<open>getToken\<close> does not read the configuration: changing it changes neither the result nor
  anything else \<open>getToken\<close> does.
\<close>

theorem constructor_validates_configuration:
  "missingConfigurations (config w) =
     map fst (filter (\<lambda>(n, f). falsy (auth_field f (config w))) required_fields) \<and>
   (\<forall>n. n \<in> set (missingConfigurations (config w)) \<longleftrightarrow>
        (\<exists>f. (n, f) \<in> set required_fields \<and> falsy (auth_field f (config w)))) \<and>
   distinct (missingConfigurations (config w)) \<and>
   (map fst (filter (\<lambda>(n, f). falsy (auth_field f (config w))) required_fields) \<noteq> [] \<longrightarrow>
      constructor ext w sso =
        Inl (ErrorWithCode
               (formatString ext (ErrorMessage_InvalidConfiguration ext)
                  [Some (join '', ''
                           (map fst (filter (\<lambda>(n, f). falsy (auth_field f (config w)))
                                       required_fields))),
                   Some ''undefined''])
               InvalidConfiguration)) \<and>
   (map fst (filter (\<lambda>(n, f). falsy (auth_field f (config w))) required_fields) = [] \<longrightarrow>
      (\<forall>e. constructor ext w sso = Inl e \<longrightarrow> parseJwt ext sso = Inl e)) \<and>
   getToken ext this sc now (w\<lparr>config := cfg'\<rparr>) =
     (case getToken ext this sc now w of (r, t, w') \<Rightarrow> (r, t, w'\<lparr>config := cfg'\<rparr>))"
proof -
  have o: "missingConfigurations (config w) =
     map fst (filter (\<lambda>(n, f). falsy (auth_field f (config w))) required_fields)"
    by (rule missingConfigurations_ordered)
  have a: "missingConfigurations (config w) \<noteq> [] \<longrightarrow>
      constructor ext w sso =
        Inl (ErrorWithCode
               (formatString ext (ErrorMessage_InvalidConfiguration ext)
                  [Some (join '', '' (missingConfigurations (config w))), Some ''undefined''])
               InvalidConfiguration)"
    by (simp add: constructor_def)
  have b: "missingConfigurations (config w) = [] \<longrightarrow>
      (\<forall>e. constructor ext w sso = Inl e \<longrightarrow> parseJwt ext sso = Inl e)"
    by (auto simp: constructor_def Let_def split: sum.splits)
  have n: "\<forall>n. n \<in> set (missingConfigurations (config w)) \<longleftrightarrow>
        (\<exists>f. (n, f) \<in> set required_fields \<and> falsy (auth_field f (config w)))"
    using missingConfigurations_names[of _ "config w"] by blast
  have g: "getToken ext this sc now (w\<lparr>config := cfg'\<rparr>) =
     (case getToken ext this sc now w of (r, t, w') \<Rightarrow> (r, t, w'\<lparr>config := cfg'\<rparr>))"
    by (rule getToken_ignores_config)
  from a have a': "map fst (filter (\<lambda>(n, f). falsy (auth_field f (config w))) required_fields) \<noteq> [] \<longrightarrow>
      constructor ext w sso =
        Inl (ErrorWithCode
               (formatString ext (ErrorMessage_InvalidConfiguration ext)
                  [Some (join '', ''
                           (map fst (filter (\<lambda>(n, f). falsy (auth_field f (config w)))
                                       required_fields))),
                   Some ''undefined''])
               InvalidConfiguration)"
    unfolding o .
  from b have b': "map fst (filter (\<lambda>(n, f). falsy (auth_field f (config w))) required_fields) = [] \<longrightarrow>
      (\<forall>e. constructor ext w sso = Inl e \<longrightarrow> parseJwt ext sso = Inl e)"
    unfolding o .
  show ?thesis
    using o n missingConfigurations_distinct[of "config w"] a' b' g by blast
qed

text \<open>
  C3, amended, on the specification's scenario and two more: with only
  \<^verbatim>\<open>initiateLoginEndpoint\<close> set, the message lists the four missing names; with the secret and
  the tenant missing, it lists \<^verbatim>\<open>clientSecret\<close> before \<^verbatim>\<open>tenantId\<close>; with the complete
  configuration the credential is built.
\<close>

theorem constructor_validates_configuration_witness:
  "constructor (stub_externals provider_A1) world_login_only ''T1'' =
     Inl (ErrorWithCode
            ''clientId, authorityHost, clientSecret, tenantId in configuration is invalid: undefined.''
            InvalidConfiguration) \<and>
   constructor (stub_externals provider_A1) world_no_secret_no_tenant ''T1'' =
     Inl (ErrorWithCode
            ''clientSecret, tenantId in configuration is invalid: undefined.''
            InvalidConfiguration) \<and>
   missingConfigurations (config world_full) = [] \<and>
   constructor (stub_externals provider_A1) world_full ''T1'' = Inr stub_credential"
proof -
  have m1: "map fst (filter (\<lambda>(n, f). falsy (auth_field f (config world_login_only)))
                      required_fields) =
     [''clientId'', ''authorityHost'', ''clientSecret'', ''tenantId'']"
    by (simp add: required_fields_def falsy_def auth_field_def world_login_only_def
        login_only_configuration_def)
  have m2: "map fst (filter (\<lambda>(n, f). falsy (auth_field f (config world_no_secret_no_tenant)))
                      required_fields) =
     [''clientSecret'', ''tenantId'']"
    by (simp add: required_fields_def falsy_def auth_field_def world_no_secret_no_tenant_def
        no_secret_no_tenant_configuration_def)
  have m': "missingConfigurations (config world_full) = []"
    by (simp add: missingConfigurations_def falsy_def auth_field_def world_full_def
        full_configuration_def)
  have c: "constructor (stub_externals provider_A1) world_full ''T1'' = Inr stub_credential"
    by (simp add: constructor_def missingConfigurations_def falsy_def stub_externals_def
        stub_parseJwt_def world_full_def full_configuration_def auth_field_def
        stub_credential_def stub_client_def)
  have 1: "constructor (stub_externals provider_A1) world_login_only ''T1'' =
     Inl (ErrorWithCode
            ''clientId, authorityHost, clientSecret, tenantId in configuration is invalid: undefined.''
            InvalidConfiguration)"
    using constructor_validates_configuration[where w = world_login_only
        and ext = "stub_externals provider_A1" and sso = "''T1''"]
    by (simp add: m1 stub_externals_simps)
  have 2: "constructor (stub_externals provider_A1) world_no_secret_no_tenant ''T1'' =
     Inl (ErrorWithCode
            ''clientSecret, tenantId in configuration is invalid: undefined.''
            InvalidConfiguration)"
    using constructor_validates_configuration[where w = world_no_secret_no_tenant
        and ext = "stub_externals provider_A1" and sso = "''T1''"]
    by (simp add: m2 stub_externals_simps)
  from 1 2 m' c show ?thesis by simp
qed

section \<open>getToken\<close>

text \<open>
  C5 as stated fails for whitespace other than the space: the scopes string holding one tab
  normalises to no scope when split on whitespace, yet \<open>getToken\<close> splits at spaces only,
  keeps the tab as a scope, calls the provider and returns the provider's token.
\<close>

theorem getToken_tab_scope_counterexample:
  "spec_scopes_by_whitespace (ScopesString [CHR 0x09]) = [] \<and>
   \<not> 1699999000000 div 1000 > expiresOnTimestamp (ssoToken stub_credential) \<and>
   getToken (stub_externals provider_A1) stub_credential (ScopesString [CHR 0x09])
       1699999000000 world_full =
     (Inr \<lparr>token = ''A1'', expiresOnTimestamp = 1700003600000\<rparr>, stub_credential,
      world_full\<lparr>calls := [(stub_client, \<lparr>oboAssertion = ''T1'', scopes = [Str [CHR 0x09]]\<rparr>)]\<rparr>)"
proof -
  have a: "scopesArray (ScopesString [CHR 0x09]) = [Str [CHR 0x09]]"
    by (simp add: scopesArray_def js_split_def)
  have b: "spec_scopes_by_whitespace (ScopesString [CHR 0x09]) = []"
    by (simp add: spec_scopes_by_whitespace_def is_whitespace_def)
  show ?thesis
    by (simp add: a b getToken_with_scopes stub_externals_simps stub_scopes_simps
        stub_credential_simps exchange_result_def provider_A1_def world_full_def)
qed

text \<open>
  C5, amended. The type check comes first: a scopes value it rejects makes \<open>getToken\<close> fail
  with the error the check throws. \<^verbatim>\<open>""\<close> and \<^verbatim>\<open>[]\<close> normalise to no scope; a scopes string
  does so exactly when it consists of space characters only (it is split at the space
  character, at no other whitespace, and empty pieces go), and a scopes array exactly when
  each entry is null or empty. For every scopes value that the type check accepts and that
  normalises to no scope, and every SSO token that is not expired (the current time in whole
  seconds is not greater than its expiry), \<open>getToken\<close> returns the stored SSO token, string
  and expiry unchanged, and sends nothing to the provider. A non-empty string without a
  space is kept whole as one scope, whatever other whitespace it holds; and for every
  accepted string that holds a character other than the space, \<open>getToken\<close> sends the
  exchange request to the provider and returns what the exchange gives.
\<close>

theorem getToken_empty_scopes_returns_sso_token:
  "(validateScopesType ext sc = Some e \<longrightarrow> getToken ext this sc now w = (Inl e, this, w)) \<and>
   scopesArray (ScopesString '''') = [] \<and>
   scopesArray (ScopesArray []) = [] \<and>
   (scopesArray (ScopesString s) = [] \<longleftrightarrow> set s \<subseteq> {CHR '' ''}) \<and>
   (scopesArray (ScopesArray xs) = [] \<longleftrightarrow> set xs \<subseteq> {Null, Str ''''}) \<and>
   (validateScopesType ext sc = None \<longrightarrow> scopesArray sc = [] \<longrightarrow>
    \<not> now div 1000 > expiresOnTimestamp (ssoToken this) \<longrightarrow>
      getToken ext this sc now w = (Inr (ssoToken this), this, w)) \<and>
   (s \<noteq> [] \<longrightarrow> CHR '' '' \<notin> set s \<longrightarrow> scopesArray (ScopesString s) = [Str s]) \<and>
   (validateScopesType ext (ScopesString s) = None \<longrightarrow> \<not> set s \<subseteq> {CHR '' ''} \<longrightarrow>
      getToken ext this (ScopesString s) now w =
        (exchange_result ext
           (acquireTokenOnBehalfOf ext (msalClient this) (calls w)
              \<lparr>oboAssertion = token (ssoToken this), scopes = scopesArray (ScopesString s)\<rparr>),
         this,
         w\<lparr>calls := calls w @
             [(msalClient this,
               \<lparr>oboAssertion = token (ssoToken this),
                scopes = scopesArray (ScopesString s)\<rparr>)]\<rparr>))"
proof -
  have r: "validateScopesType ext sc = Some e \<longrightarrow> getToken ext this sc now w = (Inl e, this, w)"
    by (simp add: getToken_rejected_scopes)
  have n: "validateScopesType ext sc = None \<longrightarrow> scopesArray sc = [] \<longrightarrow>
    \<not> now div 1000 > expiresOnTimestamp (ssoToken this) \<longrightarrow>
      getToken ext this sc now w = (Inr (ssoToken this), this, w)"
    by (simp add: getToken_no_scopes)
  have k: "s \<noteq> [] \<longrightarrow> CHR '' '' \<notin> set s \<longrightarrow> scopesArray (ScopesString s) = [Str s]"
    by (simp add: scopesArray_no_space)
  have p: "validateScopesType ext (ScopesString s) = None \<longrightarrow> \<not> set s \<subseteq> {CHR '' ''} \<longrightarrow>
      getToken ext this (ScopesString s) now w =
        (exchange_result ext
           (acquireTokenOnBehalfOf ext (msalClient this) (calls w)
              \<lparr>oboAssertion = token (ssoToken this), scopes = scopesArray (ScopesString s)\<rparr>),
         this,
         w\<lparr>calls := calls w @
             [(msalClient this,
               \<lparr>oboAssertion = token (ssoToken this),
                scopes = scopesArray (ScopesString s)\<rparr>)]\<rparr>)"
    using scopesArray_string_empty_iff[of s] by (simp add: getToken_with_scopes)
  show ?thesis
    using r n k p scopesArray_string_empty_iff[of s] scopesArray_array_empty_iff[of xs]
      scopesArray_string_empty_iff[of "''''"] scopesArray_array_empty_iff[of "[]"]
    by simp
qed

text \<open>
  C5, amended, for \<^verbatim>\<open>""\<close>, \<^verbatim>\<open>[]\<close> and a string of three spaces, which return the SSO token;
  for the array holding null, which the type check of the test double rejects; and for the
  string \<^verbatim>\<open>User.Read\<close>, which goes to the provider.
\<close>

theorem getToken_empty_scopes_returns_sso_token_witness:
  "getToken (stub_externals provider_A1) stub_credential (ScopesString '''') 1699999000000 world_full =
     (Inr \<lparr>token = ''T1'', expiresOnTimestamp = 1700000000\<rparr>, stub_credential, world_full) \<and>
   getToken (stub_externals provider_A1) stub_credential (ScopesArray []) 1699999000000 world_full =
     (Inr \<lparr>token = ''T1'', expiresOnTimestamp = 1700000000\<rparr>, stub_credential, world_full) \<and>
   getToken (stub_externals provider_A1) stub_credential (ScopesString ''   '') 1699999000000 world_full =
     (Inr \<lparr>token = ''T1'', expiresOnTimestamp = 1700000000\<rparr>, stub_credential, world_full) \<and>
   getToken (stub_externals provider_A1) stub_credential (ScopesArray [Null]) 1699999000000 world_full =
     (Inl (ErrorWithCode ''The type of scopes is not valid, it must be string or string array''
             InvalidParameter),
      stub_credential, world_full) \<and>
   getToken (stub_externals provider_A1) stub_credential (ScopesString ''User.Read'')
       1699999000000 world_full =
     (Inr \<lparr>token = ''A1'', expiresOnTimestamp = 1700003600000\<rparr>, stub_credential,
      world_full\<lparr>calls := [(stub_client, user_read_request)]\<rparr>)"
proof -
  have x: "\<not> 1699999000000 div 1000 > expiresOnTimestamp (ssoToken stub_credential)"
    by (simp add: stub_credential_simps)
  have v: "validateScopesType (stub_externals p) (ScopesString s) = None" for p s
    by (simp add: stub_externals_simps stub_scopes_simps)
  have v': "validateScopesType (stub_externals p) (ScopesArray []) = None" for p
    by (simp add: stub_externals_simps stub_scopes_simps)
  have j: "validateScopesType (stub_externals p) (ScopesArray [Null]) =
      Some (ErrorWithCode ''The type of scopes is not valid, it must be string or string array''
              InvalidParameter)" for p
    by (simp add: stub_externals_simps stub_validateScopesType_def)
  have e: "scopesArray (ScopesString ''   '') = []"
    by (simp add: scopesArray_string_empty_iff)
  have u: "\<not> set ''User.Read'' \<subseteq> {CHR '' ''}"
    by simp
  have 1: "getToken (stub_externals provider_A1) stub_credential (ScopesString '''') 1699999000000 world_full =
     (Inr \<lparr>token = ''T1'', expiresOnTimestamp = 1700000000\<rparr>, stub_credential, world_full)"
    using getToken_empty_scopes_returns_sso_token[where ext = "stub_externals provider_A1"
        and sc = "ScopesString ''''" and now = 1699999000000 and this = stub_credential
        and w = world_full] v x
    by (simp add: stub_credential_simps)
  have 2: "getToken (stub_externals provider_A1) stub_credential (ScopesArray []) 1699999000000 world_full =
     (Inr \<lparr>token = ''T1'', expiresOnTimestamp = 1700000000\<rparr>, stub_credential, world_full)"
    using getToken_empty_scopes_returns_sso_token[where ext = "stub_externals provider_A1"
        and sc = "ScopesArray []" and now = 1699999000000 and this = stub_credential
        and w = world_full] v' x
    by (simp add: stub_credential_simps)
  have 3: "getToken (stub_externals provider_A1) stub_credential (ScopesString ''   '') 1699999000000 world_full =
     (Inr \<lparr>token = ''T1'', expiresOnTimestamp = 1700000000\<rparr>, stub_credential, world_full)"
    using getToken_empty_scopes_returns_sso_token[where ext = "stub_externals provider_A1"
        and sc = "ScopesString ''   ''" and now = 1699999000000 and this = stub_credential
        and w = world_full] v x e
    by (simp add: stub_credential_simps)
  have 4: "getToken (stub_externals provider_A1) stub_credential (ScopesArray [Null]) 1699999000000 world_full =
     (Inl (ErrorWithCode ''The type of scopes is not valid, it must be string or string array''
             InvalidParameter),
      stub_credential, world_full)"
    using getToken_empty_scopes_returns_sso_token[where ext = "stub_externals provider_A1"
        and sc = "ScopesArray [Null]" and now = 1699999000000 and this = stub_credential
        and w = world_full
        and e = "ErrorWithCode ''The type of scopes is not valid, it must be string or string array''
              InvalidParameter"] j
    by simp
  have 5: "getToken (stub_externals provider_A1) stub_credential (ScopesString ''User.Read'')
       1699999000000 world_full =
     (Inr \<lparr>token = ''A1'', expiresOnTimestamp = 1700003600000\<rparr>, stub_credential,
      world_full\<lparr>calls := [(stub_client, user_read_request)]\<rparr>)"
    using getToken_empty_scopes_returns_sso_token[where ext = "stub_externals provider_A1"
        and s = "''User.Read''" and now = 1699999000000 and this = stub_credential
        and w = world_full] v u
    by (simp add: stub_externals_simps stub_scopes_simps stub_credential_simps
        exchange_result_def provider_A1_def world_full_def user_read_request_def)
  from 1 2 3 4 5 show ?thesis by simp
qed

text \<open>
  C1 as stated fails on the scoped path: with an expired SSO token and the scope
  \<^verbatim>\<open>User.Read\<close>, a provider that answers with a token makes \<open>getToken\<close> succeed.
\<close>

theorem getToken_expired_scoped_counterexample:
  "1700000500000 div 1000 > expiresOnTimestamp (ssoToken stub_credential) \<and>
   fst (getToken (stub_externals provider_A1) stub_credential
          (ScopesArray [Str ''User.Read'']) 1700000500000 world_full) =
     Inr \<lparr>token = ''A1'', expiresOnTimestamp = 1700003600000\<rparr>"
  by (simp add: getToken_with_scopes stub_externals_simps stub_scopes_simps
      stub_credential_simps exchange_result_def provider_A1_def)

text \<open>
  C1, amended. Let the current time in whole seconds be greater than the SSO token's expiry.
  If the type check rejects the scopes, \<open>getToken\<close> fails with the error the check throws,
  before any expiry test. If the check accepts the scopes and no scope is left after
  normalisation, \<open>getToken\<close> fails with \<^verbatim>\<open>TokenExpiredError\<close> and calls nobody. If the check
  accepts the scopes and a scope is left, \<open>getToken\<close> makes no expiry check of its own: the
  result is what the provider's answer gives, and it is \<^verbatim>\<open>TokenExpiredError\<close> exactly when the
  provider throws an error that is not interaction-required and whose message contains
  \<^verbatim>\<open>AADSTS500133\<close>.
\<close>

theorem getToken_expired_sso_token:
  assumes "now div 1000 > expiresOnTimestamp (ssoToken this)"
  shows "(validateScopesType ext sc = Some e \<longrightarrow> getToken ext this sc now w = (Inl e, this, w)) \<and>
         (validateScopesType ext sc = None \<longrightarrow> scopesArray sc = [] \<longrightarrow>
            getToken ext this sc now w =
              (Inl (ErrorWithCode ''Sso token has already expired.'' TokenExpiredError), this, w)) \<and>
         (validateScopesType ext sc = None \<longrightarrow> scopesArray sc \<noteq> [] \<longrightarrow>
            fst (getToken ext this sc now w) =
              exchange_result ext
                (acquireTokenOnBehalfOf ext (msalClient this) (calls w)
                   \<lparr>oboAssertion = token (ssoToken this), scopes = scopesArray sc\<rparr>)) \<and>
         (validateScopesType ext sc = None \<longrightarrow> scopesArray sc \<noteq> [] \<longrightarrow>
            ((\<exists>m. fst (getToken ext this sc now w) = Inl (ErrorWithCode m TokenExpiredError)) \<longleftrightarrow>
             (\<exists>err. acquireTokenOnBehalfOf ext (msalClient this) (calls w)
                      \<lparr>oboAssertion = token (ssoToken this), scopes = scopesArray sc\<rparr> = Throws err \<and>
                    err_name err \<noteq> Some ''InteractionRequiredAuthError'' \<and>
                    (\<exists>a b. errorMessage err = Some (a @ ''AADSTS500133'' @ b)))))"
  using assms
  by (simp add: getToken_rejected_scopes getToken_no_scopes getToken_with_scopes
      exchange_result_TokenExpired_iff)

text \<open>
  C1, amended, with an expired SSO token: \<^verbatim>\<open>""\<close> and \<^verbatim>\<open>[]\<close> fail locally, \<^verbatim>\<open>User.Read\<close> fails
  when the provider reports the assertion expired, and the array holding null, which the
  type check of the test double rejects, fails with the check's error.
\<close>

theorem getToken_expired_sso_token_witness:
  "getToken (stub_externals provider_A1) stub_credential (ScopesString '''') 1700000500000 world_full =
     (Inl (ErrorWithCode ''Sso token has already expired.'' TokenExpiredError),
      stub_credential, world_full) \<and>
   getToken (stub_externals provider_A1) stub_credential (ScopesArray []) 1700000500000 world_full =
     (Inl (ErrorWithCode ''Sso token has already expired.'' TokenExpiredError),
      stub_credential, world_full) \<and>
   fst (getToken (stub_externals provider_assertion_expired) stub_credential
          (ScopesString ''User.Read'') 1700000500000 world_full) =
     Inl (ErrorWithCode
            ''Failed to get access token from AAD server, sso token expired: invalid_grant: AADSTS500133: Assertion expired.''
            TokenExpiredError) \<and>
   getToken (stub_externals provider_A1) stub_credential (ScopesArray [Null]) 1700000500000 world_full =
     (Inl (ErrorWithCode ''The type of scopes is not valid, it must be string or string array''
             InvalidParameter),
      stub_credential, world_full)"
proof -
  have x: "1700000500000 div 1000 > expiresOnTimestamp (ssoToken stub_credential)"
    by (simp add: stub_credential_simps)
  have v: "validateScopesType (stub_externals p) (ScopesString s) = None" for p s
    by (simp add: stub_externals_simps stub_scopes_simps)
  have v': "validateScopesType (stub_externals p) (ScopesArray []) = None" for p
    by (simp add: stub_externals_simps stub_scopes_simps)
  have j: "validateScopesType (stub_externals p) (ScopesArray [Null]) =
      Some (ErrorWithCode ''The type of scopes is not valid, it must be string or string array''
              InvalidParameter)" for p
    by (simp add: stub_externals_simps stub_validateScopesType_def)
  have yes: "\<exists>a b. Some ''invalid_grant: AADSTS500133: Assertion expired.'' =
               Some (a @ ''AADSTS500133'' @ b)"
    unfolding contains_signature_iff[symmetric] by (simp add: falsy_def)
  have 1: "getToken (stub_externals provider_A1) stub_credential (ScopesString '''') 1700000500000 world_full =
     (Inl (ErrorWithCode ''Sso token has already expired.'' TokenExpiredError),
      stub_credential, world_full)"
    using getToken_expired_sso_token[OF x, where sc = "ScopesString ''''"
        and ext = "stub_externals provider_A1" and w = world_full] v
    by (simp add: stub_scopes_simps)
  have 2: "getToken (stub_externals provider_A1) stub_credential (ScopesArray []) 1700000500000 world_full =
     (Inl (ErrorWithCode ''Sso token has already expired.'' TokenExpiredError),
      stub_credential, world_full)"
    using getToken_expired_sso_token[OF x, where sc = "ScopesArray []"
        and ext = "stub_externals provider_A1" and w = world_full] v'
    by (simp add: stub_scopes_simps)
  have 3: "fst (getToken (stub_externals provider_assertion_expired) stub_credential
          (ScopesString ''User.Read'') 1700000500000 world_full) =
     Inl (ErrorWithCode
            ''Failed to get access token from AAD server, sso token expired: invalid_grant: AADSTS500133: Assertion expired.''
            TokenExpiredError)"
    using getToken_expired_sso_token[OF x, where sc = "ScopesString ''User.Read''"
        and ext = "stub_externals provider_assertion_expired" and w = world_full] v yes
    by (simp add: stub_scopes_simps stub_externals_simps provider_assertion_expired_def
        exchange_result_def generateAuthServerError_cases)
  have 4: "getToken (stub_externals provider_A1) stub_credential (ScopesArray [Null]) 1700000500000 world_full =
     (Inl (ErrorWithCode ''The type of scopes is not valid, it must be string or string array''
             InvalidParameter),
      stub_credential, world_full)"
    using getToken_expired_sso_token[OF x, where sc = "ScopesArray [Null]"
        and ext = "stub_externals provider_A1" and w = world_full
        and e = "ErrorWithCode ''The type of scopes is not valid, it must be string or string array''
              InvalidParameter"] j
    by simp
  from 1 2 3 4 show ?thesis by simp
qed

text \<open>
  C4. When the provider throws during the scoped exchange, \<open>getToken\<close> fails with exactly
  one of three codes, tested in this order: \<^verbatim>\<open>UiRequiredError\<close> for an interaction-required
  error; otherwise \<^verbatim>\<open>TokenExpiredError\<close> when the error's message (its \<^verbatim>\<open>errorMessage\<close>
  property) contains \<^verbatim>\<open>AADSTS500133\<close>; otherwise \<^verbatim>\<open>ServiceError\<close>, whose message is the
  failure template applied to the provider's message.
\<close>

theorem getToken_maps_provider_error:
  assumes "validateScopesType ext sc = None"
    and "scopesArray sc \<noteq> []"
    and "acquireTokenOnBehalfOf ext (msalClient this) (calls w)
           \<lparr>oboAssertion = token (ssoToken this), scopes = scopesArray sc\<rparr> = Throws err"
  shows "fst (getToken ext this sc now w) =
     Inl (if err_name err = Some ''InteractionRequiredAuthError''
          then ErrorWithCode
                 (''Failed to get access token from AAD server, interaction required: '' @
                    js_str (errorMessage err))
                 UiRequiredError
          else if (\<exists>a b. errorMessage err = Some (a @ ''AADSTS500133'' @ b))
          then ErrorWithCode
                 (''Failed to get access token from AAD server, sso token expired: '' @
                    js_str (errorMessage err))
                 TokenExpiredError
          else ErrorWithCode
                 (formatString ext (ErrorMessage_FailToAcquireTokenOnBehalfOfUser ext)
                    [errorMessage err])
                 ServiceError)"
  using assms
  by (simp add: getToken_with_scopes exchange_result_def generateAuthServerError_cases)

text \<open>
  C4 for three provider errors: an interaction-required one whose message also holds the
  expiry signature, an assertion-expired one, and any other.
\<close>

theorem getToken_maps_provider_error_witness:
  "fst (getToken (stub_externals provider_interaction_required) stub_credential
          (ScopesString ''User.Read'') 1699999000000 world_full) =
     Inl (ErrorWithCode
            ''Failed to get access token from AAD server, interaction required: AADSTS500133 and AADSTS65001: consent required''
            UiRequiredError) \<and>
   fst (getToken (stub_externals provider_assertion_expired) stub_credential
          (ScopesString ''User.Read'') 1699999000000 world_full) =
     Inl (ErrorWithCode
            ''Failed to get access token from AAD server, sso token expired: invalid_grant: AADSTS500133: Assertion expired.''
            TokenExpiredError) \<and>
   fst (getToken (stub_externals provider_unavailable) stub_credential
          (ScopesString ''User.Read'') 1699999000000 world_full) =
     Inl (ErrorWithCode ''Failed to acquire access token on behalf of user: network down''
            ServiceError)"
proof -
  have v: "validateScopesType (stub_externals p) (ScopesString ''User.Read'') = None" for p
    by (simp add: stub_externals_simps stub_scopes_simps)
  have s: "scopesArray (ScopesString ''User.Read'') \<noteq> []"
    by (simp add: stub_scopes_simps)
  have yes: "\<exists>a b. Some ''invalid_grant: AADSTS500133: Assertion expired.'' =
               Some (a @ ''AADSTS500133'' @ b)"
    unfolding contains_signature_iff[symmetric] by (simp add: falsy_def)
  have no: "\<not> (\<exists>a b. Some ''network down'' = Some (a @ ''AADSTS500133'' @ b))"
    unfolding contains_signature_iff[symmetric] by (simp add: falsy_def)
  have 1: "fst (getToken (stub_externals provider_interaction_required) stub_credential
          (ScopesString ''User.Read'') 1699999000000 world_full) =
     Inl (ErrorWithCode
            ''Failed to get access token from AAD server, interaction required: AADSTS500133 and AADSTS65001: consent required''
            UiRequiredError)"
    using getToken_maps_provider_error[OF v s, where this = stub_credential and w = world_full
        and err = "\<lparr>err_name = Some ''InteractionRequiredAuthError'',
             errorMessage = Some ''AADSTS500133 and AADSTS65001: consent required''\<rparr>"
        and p1 = provider_interaction_required and now = 1699999000000]
    by (simp add: stub_externals_simps provider_interaction_required_def)
  have 2: "fst (getToken (stub_externals provider_assertion_expired) stub_credential
          (ScopesString ''User.Read'') 1699999000000 world_full) =
     Inl (ErrorWithCode
            ''Failed to get access token from AAD server, sso token expired: invalid_grant: AADSTS500133: Assertion expired.''
            TokenExpiredError)"
    using getToken_maps_provider_error[OF v s, where this = stub_credential and w = world_full
        and err = "\<lparr>err_name = Some ''ServerError'',
             errorMessage = Some ''invalid_grant: AADSTS500133: Assertion expired.''\<rparr>"
        and p1 = provider_assertion_expired and now = 1699999000000] yes
    by (simp add: stub_externals_simps provider_assertion_expired_def)
  have 3: "fst (getToken (stub_externals provider_unavailable) stub_credential
          (ScopesString ''User.Read'') 1699999000000 world_full) =
     Inl (ErrorWithCode ''Failed to acquire access token on behalf of user: network down''
            ServiceError)"
    using getToken_maps_provider_error[OF v s, where this = stub_credential and w = world_full
        and err = "\<lparr>err_name = Some ''ClientAuthError'', errorMessage = Some ''network down''\<rparr>"
        and p1 = provider_unavailable and now = 1699999000000] no
    by (simp add: stub_externals_simps provider_unavailable_def)
  from 1 2 3 show ?thesis by simp
qed

text \<open>
  C6 as stated fails: the provider's expiry \<^verbatim>\<open>2023-11-14T23:13:20Z\<close> is 1700003600 in
  epoch-seconds, and the token \<open>getToken\<close> builds carries 1700003600000, the milliseconds
  that \<^verbatim>\<open>getTime()\<close> returns.
\<close>

theorem getToken_expiry_unit_counterexample:
  "provider_A1 stub_client [] user_read_request =
     Resolves (Some \<lparr>accessToken = ''A1'', expiresOn = Some (Date 1700003600000)\<rparr>) \<and>
   spec_epoch_seconds (Date 1700003600000) = 1700003600 \<and>
   fst (getToken (stub_externals provider_A1) stub_credential (ScopesString ''User.Read'')
          1699999000000 world_full) =
     Inr \<lparr>token = ''A1'', expiresOnTimestamp = 1700003600000\<rparr>"
  by (simp add: getToken_with_scopes stub_externals_simps stub_scopes_simps
      stub_credential_simps exchange_result_def provider_A1_def world_full_def
      spec_epoch_seconds_def)

text \<open>
  C6, amended. On a successful scoped exchange the token \<open>getToken\<close> builds holds the
  provider's access token, and its \<open>expiresOnTimestamp\<close> is the provider's expiry as
  \<^verbatim>\<open>getTime()\<close> gives it, in epoch-milliseconds: an expiry \<open>s\<close> seconds after the epoch is
  stored as \<open>1000 * s\<close>, not as \<open>s\<close>.
\<close>

theorem getToken_expiry_units:
  assumes "validateScopesType ext sc = None"
    and "scopesArray sc \<noteq> []"
    and "acquireTokenOnBehalfOf ext (msalClient this) (calls w)
           \<lparr>oboAssertion = token (ssoToken this), scopes = scopesArray sc\<rparr> = Resolves (Some r)"
    and "expiresOn r = Some d"
  shows "fst (getToken ext this sc now w) =
           Inr \<lparr>token = accessToken r, expiresOnTimestamp = getTime d\<rparr> \<and>
         (d = date_of_epoch_seconds s \<longrightarrow>
            fst (getToken ext this sc now w) =
              Inr \<lparr>token = accessToken r, expiresOnTimestamp = 1000 * s\<rparr> \<and>
            spec_epoch_seconds d = s)"
  using assms
  by (simp add: getToken_with_scopes exchange_result_def date_of_epoch_seconds_def
      spec_epoch_seconds_def)

text \<open>
  C6, amended, for the provider whose token expires 1700003600 seconds after the epoch: the
  token built expires at 1700003600000.
\<close>

theorem getToken_expiry_units_witness:
  "date_of_epoch_seconds 1700003600 = Date 1700003600000 \<and>
   fst (getToken (stub_externals provider_A1) stub_credential (ScopesString ''User.Read'')
          1699999000000 world_full) =
     Inr \<lparr>token = ''A1'', expiresOnTimestamp = 1000 * 1700003600\<rparr>"
proof -
  have v: "validateScopesType (stub_externals provider_A1) (ScopesString ''User.Read'') = None"
    by (simp add: stub_externals_simps stub_scopes_simps)
  have n: "scopesArray (ScopesString ''User.Read'') \<noteq> []"
    by (simp add: stub_scopes_simps)
  have p: "acquireTokenOnBehalfOf (stub_externals provider_A1) (msalClient stub_credential)
             (calls world_full)
             \<lparr>oboAssertion = token (ssoToken stub_credential),
                scopes = scopesArray (ScopesString ''User.Read'')\<rparr> =
           Resolves (Some \<lparr>accessToken = ''A1'', expiresOn = Some (Date 1700003600000)\<rparr>)"
    by (simp add: stub_externals_simps provider_A1_def)
  have e: "expiresOn \<lparr>accessToken = ''A1'', expiresOn = Some (Date 1700003600000)\<rparr> =
             Some (Date 1700003600000)"
    by simp
  have d: "date_of_epoch_seconds 1700003600 = Date 1700003600000"
    by (simp add: date_of_epoch_seconds_def)
  show ?thesis
    using d getToken_expiry_units[OF v n p e, where s = 1700003600 and now = 1699999000000]
    by simp
qed

text \<open>
  C2 as stated fails: two calls with the scope \<^verbatim>\<open>User.Read\<close>, both before expiry and both
  answered with the token \<^verbatim>\<open>A1\<close>, reach the provider twice. The credential keeps no cache.
\<close>

theorem getToken_twice_counterexample:
  "fst (getToken_twice (stub_externals provider_A1) stub_credential
          (ScopesArray [Str ''User.Read'']) 1699999000000 1699999000001 world_full) =
     Inr \<lparr>token = ''A1'', expiresOnTimestamp = 1700003600000\<rparr> \<and>
   fst (snd (getToken_twice (stub_externals provider_A1) stub_credential
          (ScopesArray [Str ''User.Read'']) 1699999000000 1699999000001 world_full)) =
     Inr \<lparr>token = ''A1'', expiresOnTimestamp = 1700003600000\<rparr> \<and>
   calls world_full = [] \<and>
   calls (snd (snd (getToken_twice (stub_externals provider_A1) stub_credential
          (ScopesArray [Str ''User.Read'']) 1699999000000 1699999000001 world_full))) =
     [(stub_client, user_read_request), (stub_client, user_read_request)]"
  by (simp add: getToken_twice_def getToken_with_scopes stub_externals_simps stub_scopes_simps
      stub_credential_simps exchange_result_def provider_A1_def world_full_def
      user_read_request_def)

text \<open>
  C2, amended. For scopes the type check accepts and that keep a scope after normalisation,
  each call of \<open>getToken\<close> sends one request to the provider, so two calls with the same
  arguments send two, and each call returns what the provider answered to its own request:
  the same token value when the provider answers both alike.
\<close>

theorem getToken_twice_exchanges_twice:
  assumes "validateScopesType ext sc = None" and "scopesArray sc \<noteq> []"
  shows "getToken_twice ext this sc now1 now2 w =
     (exchange_result ext
        (acquireTokenOnBehalfOf ext (msalClient this) (calls w)
           \<lparr>oboAssertion = token (ssoToken this), scopes = scopesArray sc\<rparr>),
      exchange_result ext
        (acquireTokenOnBehalfOf ext (msalClient this)
           (calls w @
            [(msalClient this, \<lparr>oboAssertion = token (ssoToken this), scopes = scopesArray sc\<rparr>)])
           \<lparr>oboAssertion = token (ssoToken this), scopes = scopesArray sc\<rparr>),
      w\<lparr>calls := calls w @
          [(msalClient this, \<lparr>oboAssertion = token (ssoToken this), scopes = scopesArray sc\<rparr>),
           (msalClient this, \<lparr>oboAssertion = token (ssoToken this), scopes = scopesArray sc\<rparr>)]\<rparr>) \<and>
     length (calls (snd (snd (getToken_twice ext this sc now1 now2 w)))) = length (calls w) + 2"
  using assms by (simp add: getToken_twice_def getToken_with_scopes)

text \<open>
  C2, amended, with a provider that always answers \<^verbatim>\<open>A1\<close>.
\<close>

theorem getToken_twice_exchanges_twice_witness:
  "getToken_twice (stub_externals provider_A1) stub_credential
          (ScopesString ''User.Read'') 1699999000000 1699999000001 world_full =
     (Inr \<lparr>token = ''A1'', expiresOnTimestamp = 1700003600000\<rparr>,
      Inr \<lparr>token = ''A1'', expiresOnTimestamp = 1700003600000\<rparr>,
      world_full\<lparr>calls := [(stub_client, user_read_request), (stub_client, user_read_request)]\<rparr>)"
proof -
  have v: "validateScopesType (stub_externals provider_A1) (ScopesString ''User.Read'') = None"
    by (simp add: stub_externals_simps stub_scopes_simps)
  have s: "scopesArray (ScopesString ''User.Read'') \<noteq> []"
    by (simp add: stub_scopes_simps)
  show ?thesis
    using getToken_twice_exchanges_twice[OF v s, where this = stub_credential and w = world_full
        and ?now1.0 = 1699999000000 and ?now2.0 = 1699999000001]
    by (simp add: stub_externals_simps stub_scopes_simps stub_credential_simps
        exchange_result_def provider_A1_def world_full_def user_read_request_def)
qed

text \<open>
  C10. \<open>getToken\<close> returns the credential as it received it and leaves the configuration
  alone, whatever the outcome. So after a failed call on a constructed credential, a call
  whose scopes the type check accepts and that normalise to no scope, made before the SSO
  token's expiry, returns the stored SSO token, whose string is the one given to the
  constructor.
\<close>

theorem getToken_failure_keeps_state:
  assumes "constructor ext w0 sso = Inr this"
    and "getToken ext this sc now w = (Inl e, this', w')"
    and "validateScopesType ext sc2 = None"
    and "scopesArray sc2 = []"
    and "\<not> now2 div 1000 > expiresOnTimestamp (ssoToken this)"
  shows "this' = this \<and> config w' = config w \<and> token (ssoToken this') = sso \<and>
         getToken ext this' sc2 now2 w' = (Inr (ssoToken this), this', w')"
proof -
  have t: "this' = this"
    using getToken_keeps_credential[of ext this sc now w] assms(2) by simp
  have c: "config w' = config w"
    using getToken_keeps_config[of ext this sc now w] assms(2) by simp
  have s: "token (ssoToken this) = sso"
    using assms(1) by (auto simp: constructor_def Let_def split: sum.splits if_splits)
  show ?thesis
    using t c s assms(3-5) by (simp add: getToken_no_scopes)
qed

text \<open>
  C10 after a provider error and after a rejected scopes argument.
\<close>

theorem getToken_failure_keeps_state_witness:
  "getToken (stub_externals provider_unavailable) stub_credential (ScopesString ''User.Read'')
       1699999000000 world_full =
     (Inl (ErrorWithCode ''Failed to acquire access token on behalf of user: network down''
             ServiceError),
      stub_credential,
      world_full\<lparr>calls := [(stub_client, user_read_request)]\<rparr>) \<and>
   getToken (stub_externals provider_unavailable) stub_credential (ScopesString '''')
       1699999000001 (world_full\<lparr>calls := [(stub_client, user_read_request)]\<rparr>) =
     (Inr \<lparr>token = ''T1'', expiresOnTimestamp = 1700000000\<rparr>, stub_credential,
      world_full\<lparr>calls := [(stub_client, user_read_request)]\<rparr>) \<and>
   getToken (stub_externals provider_A1) stub_credential (ScopesArray [Null])
       1699999000000 world_full =
     (Inl (ErrorWithCode ''The type of scopes is not valid, it must be string or string array''
             InvalidParameter),
      stub_credential, world_full) \<and>
   getToken (stub_externals provider_A1) stub_credential (ScopesArray [])
       1699999000001 world_full =
     (Inr \<lparr>token = ''T1'', expiresOnTimestamp = 1700000000\<rparr>, stub_credential, world_full)"
proof -
  have c: "constructor (stub_externals p) world_full ''T1'' = Inr stub_credential" for p
    by (simp add: constructor_def missingConfigurations_def falsy_def stub_externals_def
        stub_parseJwt_def world_full_def full_configuration_def auth_field_def
        stub_credential_def stub_client_def)
  have no: "\<not> (\<exists>a b. Some ''network down'' = Some (a @ ''AADSTS500133'' @ b))"
    unfolding contains_signature_iff[symmetric] by (simp add: falsy_def)
  have g: "getToken (stub_externals provider_unavailable) stub_credential (ScopesString ''User.Read'')
       1699999000000 world_full =
     (Inl (ErrorWithCode ''Failed to acquire access token on behalf of user: network down''
             ServiceError),
      stub_credential,
      world_full\<lparr>calls := [(stub_client, user_read_request)]\<rparr>)"
    using no
    by (simp add: getToken_with_scopes stub_externals_simps stub_scopes_simps
        stub_credential_simps exchange_result_def generateAuthServerError_cases
        provider_unavailable_def world_full_def user_read_request_def)
  have g': "getToken (stub_externals provider_A1) stub_credential (ScopesArray [Null])
       1699999000000 world_full =
     (Inl (ErrorWithCode ''The type of scopes is not valid, it must be string or string array''
             InvalidParameter),
      stub_credential, world_full)"
    by (simp add: getToken_rejected_scopes stub_externals_simps stub_validateScopesType_def)
  have v: "validateScopesType (stub_externals p) (ScopesString '''') = None" for p
    by (simp add: stub_externals_simps stub_scopes_simps)
  have v': "validateScopesType (stub_externals p) (ScopesArray []) = None" for p
    by (simp add: stub_externals_simps stub_scopes_simps)
  have s: "scopesArray (ScopesString '''') = []" and s': "scopesArray (ScopesArray []) = []"
    by (simp_all add: stub_scopes_simps)
  have x: "\<not> 1699999000001 div 1000 > expiresOnTimestamp (ssoToken stub_credential)"
    by (simp add: stub_credential_simps)
  show ?thesis
    using g g' getToken_failure_keeps_state[OF c g v s x]
      getToken_failure_keeps_state[OF c g' v' s' x]
    by (simp add: stub_credential_simps)
qed

end
